theory Spec2Isabelle
  imports Main "HOL-Library.Signed_Division"
begin

section \<open>The lending ledger of the library management application\<close>

text \<open>
  The model follows three source files: the schema with its CHECK constraints, indexes
  and triggers (migration 001), the \<open>DatabaseService\<close> class that runs the SQL
  statements on it, and the IPC handlers \<open>transactions:lend\<close> and \<open>transactions:return\<close>
  that sit on top of the service. A table is the list of its rows, a row is a record whose
  fields carry the column names, and every statement is a function from the database to a
  result and the database after it. A statement that fails leaves the database as it was.

  The store is SQLite, reached through better-sqlite3. Two of its rules shape everything
  below. A date or time function that is given \<open>'now'\<close> reads the clock, and SQLite refuses
  such a call while it evaluates a CHECK constraint or the WHERE clause of a partial
  index: the statement is aborted with \<open>non-deterministic use of f() in a CHECK
  constraint\<close>, or \<open>in an index\<close>. And an UPDATE evaluates only those CHECK constraints
  that mention a column it assigns. The schema calls \<open>strftime('%Y', 'now')\<close> in the
  constraint \<open>chk_publication_year\<close> of \<open>books\<close> and \<open>date('now')\<close> in the WHERE clause of
  the index \<open>idx_transactions_overdue\<close> of \<open>transactions\<close>.

  Dates and times. SQLite keeps them as text. A date \<open>yyyy-MM-dd\<close> is held here as its day
  number and a timestamp \<open>YYYY-MM-DD HH:MM:SS\<close> (what \<open>CURRENT_TIMESTAMP\<close> writes) as its
  second number, both counted from the epoch in UTC. SQLite reads the clock in UTC; the
  date-fns functions of the handlers work in the time zone of the process, which is taken
  to keep one offset from UTC (a change of daylight saving time is not modelled). A due
  date is always a date of the form \<open>yyyy-MM-dd\<close>: the lend handler writes this form, and a
  due date that the caller supplies is taken to have it. Amounts of money, numbers of
  days and numbers of copies are integers, within the range of the 64-bit INTEGER of
  SQLite.
\<close>

subsection \<open>The clock\<close>

record clock =
  now_ms :: int
  utc_offset_ms :: int

text \<open>
  \<open>now_ms\<close> is what \<open>new Date()\<close> reads, the milliseconds since the epoch; \<open>utc_offset_ms\<close>
  is what the local time of the process is ahead of UTC.
\<close>

definition msPerDay :: int where
  "msPerDay = 86400000"

definition date_now :: "clock \<Rightarrow> int" where
  \<comment> \<open>\<open>date('now')\<close> of SQLite: the date in UTC\<close>
  "date_now c = now_ms c div msPerDay"

definition local_date :: "clock \<Rightarrow> int" where
  \<comment> \<open>\<open>format(new Date(), 'yyyy-MM-dd')\<close> of date-fns: the date in the local time zone\<close>
  "local_date c = (now_ms c + utc_offset_ms c) div msPerDay"

definition CURRENT_TIMESTAMP :: "clock \<Rightarrow> int" where
  "CURRENT_TIMESTAMP c = now_ms c div 1000"

definition date_ge_timestamp :: "int \<Rightarrow> int \<Rightarrow> bool" where
  \<comment> \<open>the text comparison \<open>date >= timestamp\<close>: the ten characters of a date are a proper
      prefix of every timestamp of the same day, so the date is the smaller text there\<close>
  "date_ge_timestamp d ts = (ts div 86400 < d)"

definition Date_of_date :: "int \<Rightarrow> int" where
  \<comment> \<open>\<open>new Date('yyyy-MM-dd')\<close>: midnight UTC of that day, in milliseconds\<close>
  "Date_of_date d = d * msPerDay"

definition differenceInDays :: "int \<Rightarrow> int \<Rightarrow> int" where
  \<comment> \<open>date-fns: the number of full days between two instants, truncated towards zero.
      The function compares local times; under one offset from UTC the result does not
      depend on the offset.\<close>
  "differenceInDays dateLeft dateRight = (dateLeft - dateRight) sdiv msPerDay"

subsection \<open>Tables\<close>

datatype book_status = Available | Loaned | Reserved

datatype transaction_type = Lend | Return

text \<open>
  Table \<open>books\<close>. The primary key column \<open>id\<close> is the field \<open>bid\<close>; the JSON arrays
  \<open>authors\<close>, \<open>genres\<close> and \<open>tags\<close> are held parsed.
\<close>

record book =
  bid :: int
  title :: string
  authors :: "string list"
  isbn :: "string option"
  publisher :: "string option"
  publication_year :: "int option"
  genres :: "string list"
  language :: string
  total_copies :: int
  available_copies :: int
  location :: "string option"
  tags :: "string list"
  description :: "string option"
  cover_image_path :: "string option"
  status :: book_status
  created_at :: int
  updated_at :: int

text \<open>
  Table \<open>members\<close>. The primary key \<open>id\<close> is \<open>mid\<close>; the text column \<open>member_id\<close> is
  \<open>member_identifier\<close> (the name the views give it), since \<open>member_id\<close> is also the
  foreign key column of \<open>transactions\<close>. The columns \<open>notes\<close>, \<open>created_at\<close> and
  \<open>updated_at\<close> carry the prefix \<open>m_\<close>.
\<close>

record member =
  mid :: int
  name :: string
  member_identifier :: string
  email :: "string option"
  phone :: "string option"
  address :: "string option"
  member_type :: string
  m_notes :: "string option"
  m_created_at :: int
  m_updated_at :: int

text \<open>
  Table \<open>transactions\<close>; the primary key \<open>id\<close> is \<open>tid\<close>, the column \<open>notes\<close> is \<open>t_notes\<close>.
  The column \<open>due_date\<close> is never NULL: \<open>createTransaction\<close> is the only statement that
  writes it, and the lend handler always passes a due date.
\<close>

record transaction =
  tid :: int
  book_id :: int
  member_id :: int
  transaction_type :: transaction_type
  transaction_date :: int
  due_date :: int
  return_date :: "int option"
  fine_amount :: int
  fine_paid :: bool
  t_notes :: "string option"

text \<open>
  Table \<open>settings\<close>, as \<open>getAllSettings\<close> returns it: one property per key, its JSON value
  parsed. Only the two keys the handlers read are kept, with the shape that the \<open>Settings\<close>
  type declares: an object per key, a number per member type or rule property. \<open>None\<close>
  stands for a key or a property that is absent (\<open>undefined\<close>) or \<open>null\<close>.
\<close>

record fine_rule =
  dailyRate :: "int option"
  gracePeriod :: "int option"
  maxFine :: "int option"

record settings =
  fineRules :: "(string \<times> fine_rule) list option"
  lendingPeriods :: "(string \<times> int) list option"

text \<open>
  The database: the three tables, the settings, and the two \<open>sqlite_sequence\<close> counters
  behind \<open>AUTOINCREMENT\<close> (the largest row id each table ever held).
\<close>

record state =
  books :: "book list"
  members :: "member list"
  transactions :: "transaction list"
  settings_of :: settings
  seq_books :: int
  seq_transactions :: int

subsection \<open>Errors\<close>

datatype error =
    IdsRequired
  | BookNotFound
  | NotAvailable
  | MemberNotFound
  | TransactionIdRequired
  | TransactionNotFound
  | AlreadyReturned
  | ActiveLoansBook
  | ActiveLoansMember
  | DuplicateIsbn
  | CheckFailed string
  | NonDeterministic string string
  | ForeignKeyFailed

text \<open>
  \<open>message\<close> is the text of \<open>error.message\<close> that a handler puts into its reply. The last
  three errors are raised by the store: a CHECK constraint that does not hold (with the
  name of the constraint), a call of a date or time function on \<open>'now'\<close> inside a CHECK
  constraint or an index (with the name of the function and the place), and a foreign key
  without its row.
\<close>

fun message :: "error \<Rightarrow> string" where
  "message IdsRequired = ''Book ID and Member ID are required''"
| "message BookNotFound = ''Book not found''"
| "message NotAvailable = ''Book is not available for lending''"
| "message MemberNotFound = ''Member not found''"
| "message TransactionIdRequired = ''Transaction ID is required''"
| "message TransactionNotFound = ''Transaction not found''"
| "message AlreadyReturned = ''Book has already been returned''"
| "message ActiveLoansBook = ''Cannot delete book with active loans''"
| "message ActiveLoansMember = ''Cannot delete member with active loans''"
| "message DuplicateIsbn = ''A book with this ISBN already exists''"
| "message (CheckFailed k) = ''CHECK constraint failed: '' @ k"
| "message (NonDeterministic f place) = ''non-deterministic use of '' @ f @ ''() in '' @ place"
| "message ForeignKeyFailed = ''FOREIGN KEY constraint failed''"

fun store_error :: "error \<Rightarrow> bool" where
  \<comment> \<open>the errors that the store raises\<close>
  "store_error (CheckFailed k) = True"
| "store_error (NonDeterministic f place) = True"
| "store_error ForeignKeyFailed = True"
| "store_error e = False"

subsection \<open>Constraints, indexes and triggers of the schema\<close>

text \<open>
  A CHECK constraint has a name, mentions some columns, and on a row it holds, is violated,
  or cannot be evaluated because it calls the named function on \<open>'now'\<close>. The operator AND
  evaluates its right operand only when the left one is not false, so
  \<open>publication_year >= 1000 AND publication_year <= strftime('%Y', 'now')\<close> is violated
  by a year below 1000 and reaches \<open>strftime\<close> for every other year and for NULL.
  \<open>chk_status\<close> and \<open>chk_transaction_type\<close> hold by the types of the two columns.
\<close>

datatype verdict = Holds | Violated | Refused string

type_synonym 'a table_check = "string \<times> string list \<times> ('a \<Rightarrow> verdict)"

definition book_checks :: "book table_check list" where
  \<comment> \<open>the CHECK constraints of \<open>books\<close>, in the order of the schema\<close>
  "book_checks =
     [(''chk_total_copies'', [''total_copies''],
         \<lambda>b. if total_copies b > 0 then Holds else Violated),
      (''chk_available_copies'', [''available_copies''],
         \<lambda>b. if available_copies b \<ge> 0 then Holds else Violated),
      (''chk_available_not_more_than_total'', [''available_copies'', ''total_copies''],
         \<lambda>b. if available_copies b \<le> total_copies b then Holds else Violated),
      (''chk_status'', [''status''], \<lambda>b. Holds),
      (''chk_publication_year'', [''publication_year''],
         \<lambda>b. case publication_year b of
                None \<Rightarrow> Refused ''strftime''
              | Some y \<Rightarrow> if y \<ge> 1000 then Refused ''strftime'' else Violated),
      (''chk_language_length'', [''language''],
         \<lambda>b. if length (language b) = 2 then Holds else Violated)]"

definition transaction_checks :: "transaction table_check list" where
  \<comment> \<open>the CHECK constraints of \<open>transactions\<close>, in the order of the schema\<close>
  "transaction_checks =
     [(''chk_transaction_type'', [''transaction_type''], \<lambda>t. Holds),
      (''chk_fine_amount'', [''fine_amount''],
         \<lambda>t. if fine_amount t \<ge> 0 then Holds else Violated),
      (''chk_due_date_after_lend'', [''due_date'', ''transaction_date''],
         \<lambda>t. if date_ge_timestamp (due_date t) (transaction_date t) then Holds else Violated),
      (''chk_return_date_after_lend'', [''return_date'', ''transaction_date''],
         \<lambda>t. case return_date t of
                None \<Rightarrow> Holds
              | Some r \<Rightarrow> if r \<ge> transaction_date t then Holds else Violated)]"

fun check_row :: "'a table_check list \<Rightarrow> string list option \<Rightarrow> 'a \<Rightarrow> error option" where
  \<comment> \<open>The constraints that a statement evaluates on a row it writes, in order, up to the
      first one that does not hold: all of them for an INSERT (\<open>None\<close>), and for an UPDATE
      that assigns the columns \<open>xs\<close> (\<open>Some xs\<close>) those that mention one of \<open>xs\<close>.\<close>
  "check_row [] assigned r = None"
| "check_row ((k, cols, p) # cs) assigned r =
     (if (case assigned of None \<Rightarrow> True | Some xs \<Rightarrow> list_ex (\<lambda>x. x \<in> set cols) xs)
      then (case p r of
              Holds \<Rightarrow> check_row cs assigned r
            | Violated \<Rightarrow> Some (CheckFailed k)
            | Refused f \<Rightarrow> Some (NonDeterministic f ''a CHECK constraint''))
      else check_row cs assigned r)"

fun first_error :: "('a \<Rightarrow> error option) \<Rightarrow> 'a list \<Rightarrow> error option" where
  "first_error chk [] = None"
| "first_error chk (x # xs) =
     (case chk x of Some e \<Rightarrow> Some e | None \<Rightarrow> first_error chk xs)"

definition idx_transactions_overdue :: "transaction \<Rightarrow> error option" where
  \<comment> \<open>The partial index \<open>ON transactions(due_date) WHERE return_date IS NULL AND due_date <
      date('now')\<close>. A statement that puts a row into the table or takes one out (an
      INSERT, a DELETE, an UPDATE that assigns \<open>return_date\<close>) evaluates the WHERE clause
      for that row; for a row with a return date the first operand is
      false, for every other row \<open>date('now')\<close> is called.\<close>
  "idx_transactions_overdue t =
     (if return_date t = None then Some (NonDeterministic ''date'' ''an index'') else None)"

definition set_books :: "clock \<Rightarrow> int \<Rightarrow> (book \<Rightarrow> book) \<Rightarrow> book list \<Rightarrow> book list" where
  \<comment> \<open>the table after \<open>UPDATE books SET ... WHERE id = i\<close>; trigger
      \<open>update_books_updated_at\<close> stamps each row the statement changes (its own UPDATE
      assigns \<open>updated_at\<close>, which no constraint mentions)\<close>
  "set_books c i f bs =
     map (\<lambda>b. if bid b = i then (f b)\<lparr>updated_at := CURRENT_TIMESTAMP c\<rparr> else b) bs"

definition update_books ::
  "clock \<Rightarrow> string list \<Rightarrow> int \<Rightarrow> (book \<Rightarrow> book) \<Rightarrow> book list \<Rightarrow> error + book list" where
  \<comment> \<open>\<open>UPDATE books SET ... WHERE id = i\<close>, the SET clause assigning the columns
      \<open>assigned\<close>: a constraint that does not hold on a new row aborts the statement\<close>
  "update_books c assigned i f bs =
     (case first_error (check_row book_checks (Some assigned))
             (map f (filter (\<lambda>b. bid b = i) bs)) of
        Some e \<Rightarrow> Inl e
      | None \<Rightarrow> Inr (set_books c i f bs))"

definition trigger_columns :: "string list" where
  \<comment> \<open>the columns that the SET clauses of the two triggers on \<open>transactions\<close> assign\<close>
  "trigger_columns = [''available_copies'', ''status'']"

definition on_lend :: "book \<Rightarrow> book" where
  \<comment> \<open>the SET clause of trigger \<open>update_book_status_on_lend\<close>\<close>
  "on_lend b =
     b\<lparr>available_copies := available_copies b - 1,
       status := (if available_copies b - 1 = 0 then Loaned
                  else if available_copies b - 1 > 0 then Available
                  else Reserved)\<rparr>"

definition on_return :: "book \<Rightarrow> book" where
  \<comment> \<open>the SET clause of trigger \<open>update_book_status_on_return\<close>\<close>
  "on_return b = b\<lparr>available_copies := available_copies b + 1, status := Available\<rparr>"

fun fire_on_return :: "clock \<Rightarrow> transaction list \<Rightarrow> book list \<Rightarrow> error + book list" where
  \<comment> \<open>trigger \<open>update_book_status_on_return\<close>, once for each updated row whose old
      \<open>return_date\<close> was NULL (the new one never is)\<close>
  "fire_on_return c [] bs = Inr bs"
| "fire_on_return c (old # olds) bs =
     (if return_date old = None
      then (case update_books c trigger_columns (book_id old) on_return bs of
              Inl e \<Rightarrow> Inl e
            | Inr bs' \<Rightarrow> fire_on_return c olds bs')
      else fire_on_return c olds bs)"

definition is_open :: "transaction \<Rightarrow> bool" where
  \<comment> \<open>\<open>transaction_type = 'lend' AND return_date IS NULL\<close>\<close>
  "is_open t = (transaction_type t = Lend \<and> return_date t = None)"

definition fresh_id :: "int \<Rightarrow> int list \<Rightarrow> int" where
  \<comment> \<open>\<open>AUTOINCREMENT\<close>: one more than the largest id the table holds or ever held\<close>
  "fresh_id seq ids = fold max ids seq + 1"

subsection \<open>Rows as the service returns them\<close>

text \<open>
  \<open>getBookById\<close> and \<open>getMemberById\<close> select every column of the row and the number of its
  open loans; \<open>getTransactionById\<close> joins a transaction with its book and its member and adds
  \<open>book_title\<close>, \<open>member_name\<close> and the member's \<open>member_type\<close> (field \<open>row_member_type\<close>).
  The rows of the two projections add \<open>book_authors\<close>, and those of the active loans the
  column \<open>status\<close> (field \<open>loan_status\<close>). Their column \<open>days_overdue\<close>, the double-precision
  value of \<open>julianday('now') - julianday(due_date)\<close>, is left out.
\<close>

record book_row = book +
  active_loans :: nat

record member_row = member +
  m_active_loans :: nat

record transaction_row = transaction +
  book_title :: string
  member_name :: string
  row_member_type :: string

record loan_row = transaction_row +
  book_authors :: "string list"

record active_row = loan_row +
  loan_status :: string

text \<open>
  A handler reads a row object by property name. The object has one property per selected
  column, under the column's SQL name; reading any other name gives \<open>undefined\<close>.
  \<open>book_row_number\<close> lists the properties of a book row that always hold a number,
  \<open>member_row_text\<close> the properties of a member row that always hold a text; \<open>None\<close> is
  \<open>undefined\<close>. (The remaining properties, among them every column that may be NULL, are
  read by no handler below and are not listed.)
\<close>

definition book_row_number :: "book_row \<Rightarrow> string \<Rightarrow> int option" where
  "book_row_number r =
     map_of [(''id'', bid r), (''total_copies'', total_copies r),
             (''available_copies'', available_copies r),
             (''active_loans'', int (active_loans r))]"

definition member_row_text :: "member_row \<Rightarrow> string \<Rightarrow> string option" where
  "member_row_text r =
     map_of [(''name'', name r), (''member_id'', member_identifier r),
             (''member_type'', member_type r)]"

definition js_le :: "int option \<Rightarrow> int \<Rightarrow> bool" where
  \<comment> \<open>\<open>x <= n\<close>: \<open>undefined\<close> converts to NaN, and every comparison with NaN is false\<close>
  "js_le x n = (case x of None \<Rightarrow> False | Some v \<Rightarrow> v \<le> n)"

definition js_String :: "string option \<Rightarrow> string" where
  \<comment> \<open>a value used as a property key or inside a template literal\<close>
  "js_String x = (case x of None \<Rightarrow> ''undefined'' | Some v \<Rightarrow> v)"

definition or_null :: "string option \<Rightarrow> string option" where
  \<comment> \<open>\<open>x || null\<close> on a text: the empty text is falsy\<close>
  "or_null x = (case x of None \<Rightarrow> None | Some v \<Rightarrow> if v = [] then None else Some v)"

definition or_null_number :: "int option \<Rightarrow> int option" where
  \<comment> \<open>\<open>x || null\<close> on a number: zero is falsy\<close>
  "or_null_number x = (case x of None \<Rightarrow> None | Some v \<Rightarrow> if v = 0 then None else Some v)"

subsection \<open>DatabaseService: reads\<close>

text \<open>
  The reads return the rows they select and leave the database alone. \<open>id\<close> is the primary
  key of each table, so a lookup by id finds at most one row. The two projections are
  the selections of \<open>getActiveTransactions\<close> and \<open>getOverdueTransactions\<close>, ordered by due
  date.
\<close>

definition book_active_loans :: "state \<Rightarrow> int \<Rightarrow> nat" where
  \<comment> \<open>\<open>COUNT(CASE WHEN t.transaction_type = 'lend' AND t.return_date IS NULL THEN 1 END)\<close>
      over the transactions of book \<open>i\<close>\<close>
  "book_active_loans s i = length (filter (\<lambda>t. book_id t = i \<and> is_open t) (transactions s))"

definition member_active_loans :: "state \<Rightarrow> int \<Rightarrow> nat" where
  "member_active_loans s i = length (filter (\<lambda>t. member_id t = i \<and> is_open t) (transactions s))"

definition getBookById :: "state \<Rightarrow> int \<Rightarrow> book_row option" where
  "getBookById s i =
     (case find (\<lambda>b. bid b = i) (books s) of
        None \<Rightarrow> None
      | Some b \<Rightarrow> Some (book.extend b (book_row.fields (book_active_loans s i))))"

definition getMemberById :: "state \<Rightarrow> int \<Rightarrow> member_row option" where
  "getMemberById s i =
     (case find (\<lambda>m. mid m = i) (members s) of
        None \<Rightarrow> None
      | Some m \<Rightarrow> Some (member.extend m (member_row.fields (member_active_loans s i))))"

definition join_row :: "state \<Rightarrow> transaction \<Rightarrow> transaction_row option" where
  \<comment> \<open>\<open>FROM transactions t JOIN books b ON t.book_id = b.id JOIN members m ON
      t.member_id = m.id\<close>, for one transaction\<close>
  "join_row s t =
     (case find (\<lambda>b. bid b = book_id t) (books s) of
        None \<Rightarrow> None
      | Some b \<Rightarrow>
          (case find (\<lambda>m. mid m = member_id t) (members s) of
             None \<Rightarrow> None
           | Some m \<Rightarrow>
               Some (transaction.extend t
                      (transaction_row.fields (title b) (name m) (member_type m)))))"

definition getTransactionById :: "state \<Rightarrow> int \<Rightarrow> transaction_row option" where
  "getTransactionById s i =
     (case find (\<lambda>t. tid t = i) (transactions s) of
        None \<Rightarrow> None
      | Some t \<Rightarrow> join_row s t)"

definition getAllSettings :: "state \<Rightarrow> settings" where
  "getAllSettings s = settings_of s"

definition with_authors :: "state \<Rightarrow> transaction_row \<Rightarrow> loan_row" where
  \<comment> \<open>the column \<open>b.authors as book_authors\<close>\<close>
  "with_authors s r =
     transaction_row.extend r
       (loan_row.fields
          (case find (\<lambda>b. bid b = book_id r) (books s) of None \<Rightarrow> [] | Some b \<Rightarrow> authors b))"

definition getOverdueTransactions :: "clock \<Rightarrow> state \<Rightarrow> loan_row list \<times> state" where
  "getOverdueTransactions c s =
     (sort_key due_date
        (map (with_authors s)
           (List.map_filter (join_row s)
              (filter (\<lambda>t. transaction_type t = Lend \<and> return_date t = None
                            \<and> due_date t < date_now c)
                 (transactions s)))),
      s)"

definition with_status :: "clock \<Rightarrow> state \<Rightarrow> transaction_row \<Rightarrow> active_row" where
  \<comment> \<open>the further column \<open>CASE WHEN t.due_date < date('now') THEN 'overdue' ELSE 'on_time'
      END as status\<close> of the active loans (field \<open>loan_status\<close>)\<close>
  "with_status c s r =
     loan_row.extend (with_authors s r)
       (active_row.fields (if due_date r < date_now c then ''overdue'' else ''on_time''))"

definition getActiveTransactions :: "clock \<Rightarrow> state \<Rightarrow> active_row list \<times> state" where
  "getActiveTransactions c s =
     (sort_key due_date
        (map (with_status c s)
           (List.map_filter (join_row s)
              (filter (\<lambda>t. transaction_type t = Lend \<and> return_date t = None)
                 (transactions s)))),
      s)"

subsection \<open>DatabaseService: books\<close>

text \<open>The argument \<open>bookData\<close> of \<open>createBook\<close> and \<open>updateBook\<close>, as the \<open>Book\<close> type declares it.\<close>

record bookData =
  bd_title :: string
  bd_authors :: "string list"
  bd_isbn :: "string option"
  bd_publisher :: "string option"
  bd_publicationYear :: "int option"
  bd_genres :: "string list"
  bd_language :: "string option"
  bd_totalCopies :: int
  bd_location :: "string option"
  bd_tags :: "string list"
  bd_description :: "string option"
  bd_coverImagePath :: "string option"

definition isbn_taken :: "book list \<Rightarrow> int \<Rightarrow> string option \<Rightarrow> bool" where
  \<comment> \<open>\<open>isbn TEXT UNIQUE\<close>: another row already holds this ISBN (NULLs never collide)\<close>
  "isbn_taken bs i x =
     (case x of None \<Rightarrow> False
      | Some v \<Rightarrow> list_ex (\<lambda>b. bid b \<noteq> i \<and> isbn b = Some v) bs)"

definition new_book :: "bookData \<Rightarrow> clock \<Rightarrow> state \<Rightarrow> book" where
  \<comment> \<open>the row that the INSERT of \<open>createBook\<close> asks for: the initial available copies
      equal the total\<close>
  "new_book bd c s =
     \<lparr>bid = fresh_id (seq_books s) (map bid (books s)),
      title = bd_title bd,
      authors = bd_authors bd,
      isbn = or_null (bd_isbn bd),
      publisher = or_null (bd_publisher bd),
      publication_year = or_null_number (bd_publicationYear bd),
      genres = bd_genres bd,
      language = (case or_null (bd_language bd) of None \<Rightarrow> ''en'' | Some l \<Rightarrow> l),
      total_copies = bd_totalCopies bd,
      available_copies = bd_totalCopies bd,
      location = or_null (bd_location bd),
      tags = bd_tags bd,
      description = or_null (bd_description bd),
      cover_image_path = or_null (bd_coverImagePath bd),
      status = Available,
      created_at = CURRENT_TIMESTAMP c,
      updated_at = CURRENT_TIMESTAMP c\<rparr>"

definition createBook :: "bookData \<Rightarrow> clock \<Rightarrow> state \<Rightarrow> (error + book_row option) \<times> state" where
  \<comment> \<open>The INSERT evaluates every CHECK constraint of \<open>books\<close> on the new row, then the
      UNIQUE constraint of \<open>isbn\<close>.\<close>
  "createBook bd c s =
     (let row = new_book bd c s
      in case check_row book_checks None row of
           Some e \<Rightarrow> (Inl e, s)
         | None \<Rightarrow>
             if isbn_taken (books s) (bid row) (isbn row) then (Inl DuplicateIsbn, s)
             else (let s' = s\<lparr>books := books s @ [row], seq_books := bid row\<rparr>
                   in (Inr (getBookById s' (bid row)), s')))"

definition updateBook_columns :: "string list" where
  \<comment> \<open>the columns that the SET clause of \<open>updateBook\<close> assigns\<close>
  "updateBook_columns =
     [''title'', ''authors'', ''isbn'', ''publisher'', ''publication_year'', ''genres'',
      ''language'', ''total_copies'', ''location'', ''tags'', ''description'',
      ''cover_image_path'', ''updated_at'']"

definition updateBook_set :: "bookData \<Rightarrow> book \<Rightarrow> book" where
  \<comment> \<open>the SET clause of \<open>updateBook\<close>, \<open>updated_at\<close> apart\<close>
  "updateBook_set bd b =
     b\<lparr>title := bd_title bd,
       authors := bd_authors bd,
       isbn := or_null (bd_isbn bd),
       publisher := or_null (bd_publisher bd),
       publication_year := or_null_number (bd_publicationYear bd),
       genres := bd_genres bd,
       language := (case or_null (bd_language bd) of None \<Rightarrow> ''en'' | Some l \<Rightarrow> l),
       total_copies := bd_totalCopies bd,
       location := or_null (bd_location bd),
       tags := bd_tags bd,
       description := or_null (bd_description bd),
       cover_image_path := or_null (bd_coverImagePath bd)\<rparr>"

definition updateBook :: "int \<Rightarrow> bookData \<Rightarrow> clock \<Rightarrow> state \<Rightarrow> (error + book_row option) \<times> state" where
  "updateBook i bd c s =
     (case update_books c updateBook_columns i (updateBook_set bd) (books s) of
        Inl e \<Rightarrow> (Inl e, s)
      | Inr bs \<Rightarrow>
          if filter (\<lambda>b. bid b = i) (books s) = [] then (Inl BookNotFound, s)
          else if isbn_taken (books s) i (or_null (bd_isbn bd)) then (Inl DuplicateIsbn, s)
          else (let s' = s\<lparr>books := bs\<rparr> in (Inr (getBookById s' i), s')))"

definition deleteBook :: "int \<Rightarrow> state \<Rightarrow> (error + bool) \<times> state" where
  \<comment> \<open>\<open>ON DELETE CASCADE\<close> removes the transactions of the deleted book with it, and each
      of them leaves the partial index\<close>
  "deleteBook i s =
     (if 0 < book_active_loans s i then (Inl ActiveLoansBook, s)
      else if filter (\<lambda>b. bid b = i) (books s) = [] then (Inl BookNotFound, s)
      else case first_error idx_transactions_overdue
                  (filter (\<lambda>t. book_id t = i) (transactions s)) of
             Some e \<Rightarrow> (Inl e, s)
           | None \<Rightarrow>
               (Inr True,
                s\<lparr>books := filter (\<lambda>b. bid b \<noteq> i) (books s),
                  transactions := filter (\<lambda>t. book_id t \<noteq> i) (transactions s)\<rparr>))"

subsection \<open>DatabaseService: members\<close>

definition deleteMember :: "int \<Rightarrow> state \<Rightarrow> (error + bool) \<times> state" where
  "deleteMember i s =
     (if 0 < member_active_loans s i then (Inl ActiveLoansMember, s)
      else if filter (\<lambda>m. mid m = i) (members s) = [] then (Inl MemberNotFound, s)
      else case first_error idx_transactions_overdue
                  (filter (\<lambda>t. member_id t = i) (transactions s)) of
             Some e \<Rightarrow> (Inl e, s)
           | None \<Rightarrow>
               (Inr True,
                s\<lparr>members := filter (\<lambda>m. mid m \<noteq> i) (members s),
                  transactions := filter (\<lambda>t. member_id t \<noteq> i) (transactions s)\<rparr>))"

subsection \<open>DatabaseService: transactions\<close>

record transactionData =
  td_bookId :: int
  td_memberId :: int
  td_dueDate :: int
  td_notes :: "string option"

definition new_transaction :: "transactionData \<Rightarrow> clock \<Rightarrow> state \<Rightarrow> transaction" where
  \<comment> \<open>the row that the INSERT of \<open>createTransaction\<close> asks for, defaults filled in\<close>
  "new_transaction td c s =
     \<lparr>tid = fresh_id (seq_transactions s) (map tid (transactions s)),
      book_id = td_bookId td,
      member_id = td_memberId td,
      transaction_type = Lend,
      transaction_date = CURRENT_TIMESTAMP c,
      due_date = td_dueDate td,
      return_date = None,
      fine_amount = 0,
      fine_paid = False,
      t_notes = or_null (td_notes td)\<rparr>"

definition createTransaction ::
  "transactionData \<Rightarrow> clock \<Rightarrow> state \<Rightarrow> (error + transaction_row option) \<times> state" where
  \<comment> \<open>The INSERT: the CHECK constraints of the new row, its entry in the partial index,
      then trigger \<open>update_book_status_on_lend\<close> on the book, and the two foreign keys at
      the end of the statement (\<open>foreign_keys = ON\<close>).\<close>
  "createTransaction td c s =
     (let row = new_transaction td c s
      in case check_row transaction_checks None row of
           Some e \<Rightarrow> (Inl e, s)
         | None \<Rightarrow>
             (case idx_transactions_overdue row of
                Some e \<Rightarrow> (Inl e, s)
              | None \<Rightarrow>
                  (case update_books c trigger_columns (book_id row) on_lend (books s) of
                     Inl e \<Rightarrow> (Inl e, s)
                   | Inr bs \<Rightarrow>
                       if find (\<lambda>b. bid b = book_id row) (books s) = None
                          \<or> find (\<lambda>m. mid m = member_id row) (members s) = None
                       then (Inl ForeignKeyFailed, s)
                       else (let s' = s\<lparr>books := bs,
                                         transactions := transactions s @ [row],
                                         seq_transactions := tid row\<rparr>
                             in (Inr (getTransactionById s' (tid row)), s')))))"

definition returnBook_columns :: "string list" where
  \<comment> \<open>the columns that the SET clause of \<open>returnBook\<close> assigns\<close>
  "returnBook_columns = [''return_date'', ''fine_amount'', ''transaction_type'']"

definition returnBook_set :: "clock \<Rightarrow> int \<Rightarrow> transaction \<Rightarrow> transaction" where
  \<comment> \<open>the SET clause of \<open>returnBook\<close>\<close>
  "returnBook_set c fineAmount t =
     t\<lparr>return_date := Some (CURRENT_TIMESTAMP c),
       fine_amount := fineAmount,
       transaction_type := Return\<rparr>"

definition returnBook ::
  "int \<Rightarrow> int \<Rightarrow> clock \<Rightarrow> state \<Rightarrow> (error + transaction_row option) \<times> state" where
  \<comment> \<open>The UPDATE: the CHECK constraints that mention an assigned column, on the new row;
      the partial index, whose WHERE clause mentions \<open>return_date\<close>, for the new row that
      goes in and the old row that comes out; then trigger \<open>update_book_status_on_return\<close>.\<close>
  "returnBook transactionId fineAmount c s =
     (let olds = filter (\<lambda>t. tid t = transactionId) (transactions s);
          news = map (returnBook_set c fineAmount) olds
      in case first_error (check_row transaction_checks (Some returnBook_columns)) news of
           Some e \<Rightarrow> (Inl e, s)
         | None \<Rightarrow>
             (case first_error idx_transactions_overdue (news @ olds) of
                Some e \<Rightarrow> (Inl e, s)
              | None \<Rightarrow>
                  (case fire_on_return c olds (books s) of
                     Inl e \<Rightarrow> (Inl e, s)
                   | Inr bs \<Rightarrow>
                       if olds = [] then (Inl TransactionNotFound, s)
                       else (let s' = s\<lparr>books := bs,
                                         transactions :=
                                           map (\<lambda>t. if tid t = transactionId
                                                     then returnBook_set c fineAmount t else t)
                                               (transactions s)\<rparr>
                             in (Inr (getTransactionById s' transactionId), s')))))"

subsection \<open>The handlers \<open>transactions:lend\<close> and \<open>transactions:return\<close>\<close>

definition default_lendingPeriods :: "(string \<times> int) list" where
  "default_lendingPeriods = [(''student'', 14), (''faculty'', 30), (''public'', 7)]"

definition default_fineRules :: "(string \<times> fine_rule) list" where
  "default_fineRules =
     [(''student'', \<lparr>dailyRate = Some 5, gracePeriod = None, maxFine = Some 500\<rparr>),
      (''faculty'', \<lparr>dailyRate = Some 3, gracePeriod = None, maxFine = Some 300\<rparr>),
      (''public'', \<lparr>dailyRate = Some 10, gracePeriod = None, maxFine = Some 1000\<rparr>)]"

definition number_or :: "int option \<Rightarrow> int \<Rightarrow> int" where
  \<comment> \<open>\<open>x || d\<close> on a number: \<open>undefined\<close> and zero are falsy\<close>
  "number_or x d = (case x of None \<Rightarrow> d | Some v \<Rightarrow> if v = 0 then d else v)"

definition lending_period :: "settings \<Rightarrow> member_row \<Rightarrow> int" where
  \<comment> \<open>\<open>const lendingPeriods = settings.lendingPeriods || {...};
      const period = lendingPeriods[member.memberType] || 14\<close>\<close>
  "lending_period st member =
     (let lendingPeriods =
            (case lendingPeriods st of None \<Rightarrow> default_lendingPeriods | Some l \<Rightarrow> l)
      in number_or (map_of lendingPeriods (js_String (member_row_text member ''memberType''))) 14)"

definition lend_notes :: "member_row \<Rightarrow> string" where
  "lend_notes member =
     ''Book lent to '' @ js_String (member_row_text member ''name'')
       @ '' ('' @ js_String (member_row_text member ''memberId'') @ '')''"

definition calculatedDueDate :: "int option \<Rightarrow> clock \<Rightarrow> settings \<Rightarrow> member_row \<Rightarrow> int" where
  \<comment> \<open>the due date of the lend handler: the one supplied, or
      \<open>format(addDays(new Date(), period), 'yyyy-MM-dd')\<close>\<close>
  "calculatedDueDate dueDate c st member =
     (case dueDate of
        Some d \<Rightarrow> d
      | None \<Rightarrow> local_date c + lending_period st member)"

definition transactions_lend ::
  "int \<Rightarrow> int \<Rightarrow> int option \<Rightarrow> clock \<Rightarrow> state
     \<Rightarrow> (error + transaction_row option) \<times> state" where
  "transactions_lend bookId memberId dueDate c s =
     (if bookId = 0 \<or> memberId = 0 then (Inl IdsRequired, s)
      else case getBookById s bookId of
        None \<Rightarrow> (Inl BookNotFound, s)
      | Some book \<Rightarrow>
          if js_le (book_row_number book ''availableCopies'') 0 then (Inl NotAvailable, s)
          else (case getMemberById s memberId of
             None \<Rightarrow> (Inl MemberNotFound, s)
           | Some member \<Rightarrow>
               createTransaction
                 \<lparr>td_bookId = bookId, td_memberId = memberId,
                  td_dueDate = calculatedDueDate dueDate c (getAllSettings s) member,
                  td_notes = Some (lend_notes member)\<rparr> c s))"

definition dailyRate_of :: "settings \<Rightarrow> string \<Rightarrow> int" where
  \<comment> \<open>\<open>const dailyRate = fineRules[memberType]?.dailyRate || 5\<close>\<close>
  "dailyRate_of st memberType =
     (let fineRules = (case fineRules st of None \<Rightarrow> default_fineRules | Some r \<Rightarrow> r)
      in number_or (case map_of fineRules memberType of None \<Rightarrow> None | Some r \<Rightarrow> dailyRate r) 5)"

definition maxFine_of :: "settings \<Rightarrow> string \<Rightarrow> int" where
  \<comment> \<open>\<open>const maxFine = fineRules[memberType]?.maxFine || 500\<close>\<close>
  "maxFine_of st memberType =
     (let fineRules = (case fineRules st of None \<Rightarrow> default_fineRules | Some r \<Rightarrow> r)
      in number_or (case map_of fineRules memberType of None \<Rightarrow> None | Some r \<Rightarrow> maxFine r) 500)"

definition fineAmount_of :: "settings \<Rightarrow> clock \<Rightarrow> transaction_row \<Rightarrow> int" where
  \<comment> \<open>the fine that the return handler computes for the loan it is about to close\<close>
  "fineAmount_of st c tr =
     (if Date_of_date (due_date tr) < now_ms c
      then (let daysOverdue = differenceInDays (now_ms c) (Date_of_date (due_date tr))
            in if daysOverdue > 0
               then min (daysOverdue * dailyRate_of st (row_member_type tr))
                        (maxFine_of st (row_member_type tr))
               else 0)
      else 0)"

definition transactions_return ::
  "int \<Rightarrow> clock \<Rightarrow> state \<Rightarrow> (error + transaction_row option) \<times> state" where
  "transactions_return transactionId c s =
     (if transactionId = 0 then (Inl TransactionIdRequired, s)
      else case getTransactionById s transactionId of
        None \<Rightarrow> (Inl TransactionNotFound, s)
      | Some tr \<Rightarrow>
          if return_date tr \<noteq> None then (Inl AlreadyReturned, s)
          else returnBook transactionId (fineAmount_of (getAllSettings s) c tr) c s)"

subsection \<open>Sequences of operations\<close>

text \<open>
  The operations that write the database. \<open>createMember\<close> and \<open>updateMember\<close> write the
  table \<open>members\<close> and \<open>setSetting\<close> writes the table \<open>settings\<close>, and none of them touches
  another table; \<open>WriteMembers\<close> and \<open>WriteSettings\<close> stand for any such write, their
  argument being the table after it. Each operation comes with the clock it reads.
\<close>

datatype operation =
    CreateBook bookData
  | UpdateBook int bookData
  | DeleteBook int
  | WriteMembers "member list"
  | DeleteMember int
  | WriteSettings settings
  | LendBook int int "int option"
  | ReturnLoan int

fun apply_operation :: "clock \<Rightarrow> operation \<Rightarrow> state \<Rightarrow> state" where
  "apply_operation c (CreateBook bd) s = snd (createBook bd c s)"
| "apply_operation c (UpdateBook i bd) s = snd (updateBook i bd c s)"
| "apply_operation c (DeleteBook i) s = snd (deleteBook i s)"
| "apply_operation c (WriteMembers ms) s = s\<lparr>members := ms\<rparr>"
| "apply_operation c (DeleteMember i) s = snd (deleteMember i s)"
| "apply_operation c (WriteSettings st) s = s\<lparr>settings_of := st\<rparr>"
| "apply_operation c (LendBook bookId memberId dueDate) s =
     snd (transactions_lend bookId memberId dueDate c s)"
| "apply_operation c (ReturnLoan transactionId) s = snd (transactions_return transactionId c s)"

fun run :: "(clock \<times> operation) list \<Rightarrow> state \<Rightarrow> state" where
  "run [] s = s"
| "run ((c, operation) # rest) s = run rest (apply_operation c operation s)"


subsection \<open>Example data\<close>

text \<open>
  A database with two members and the settings of the seed file \<open>sample_data.sql\<close>, and
  the data of a book. The rows \<open>emily_loan\<close> and \<open>john_loan\<close> have the shape of what
  \<open>getTransactionById\<close> returns for an open loan: the faculty member's is due on day 19814,
  the student's on day 19815.
\<close>

definition clock_at :: "int \<Rightarrow> int \<Rightarrow> clock" where
  \<comment> \<open>the instant \<open>ms\<close> milliseconds into day number \<open>day\<close>, the process running in UTC\<close>
  "clock_at day ms = \<lparr>now_ms = day * msPerDay + ms, utc_offset_ms = 0\<rparr>"

definition john :: member where
  "john = \<lparr>mid = 1, name = ''John Smith'', member_identifier = ''MEM-2024-0001'',
            email = None, phone = None, address = None, member_type = ''student'',
            m_notes = None, m_created_at = 1710000000, m_updated_at = 1710000000\<rparr>"

definition emily :: member where
  "emily = \<lparr>mid = 2, name = ''Emily Johnson'', member_identifier = ''MEM-2024-0002'',
             email = None, phone = None, address = None, member_type = ''faculty'',
             m_notes = None, m_created_at = 1710000000, m_updated_at = 1710000000\<rparr>"

definition seed_settings :: settings where
  "seed_settings =
     \<lparr>fineRules = Some
        [(''student'', \<lparr>dailyRate = Some 5, gracePeriod = Some 0, maxFine = Some 500\<rparr>),
         (''faculty'', \<lparr>dailyRate = Some 3, gracePeriod = Some 3, maxFine = Some 300\<rparr>),
         (''public'', \<lparr>dailyRate = Some 10, gracePeriod = Some 0, maxFine = Some 1000\<rparr>)],
      lendingPeriods = Some [(''student'', 14), (''faculty'', 30), (''public'', 7)]\<rparr>"

definition gatsby :: bookData where
  "gatsby = \<lparr>bd_title = ''The Great Gatsby'', bd_authors = [''F. Scott Fitzgerald''],
              bd_isbn = Some ''9780743273565'', bd_publisher = Some ''Scribner'',
              bd_publicationYear = Some 1925, bd_genres = [''Fiction''],
              bd_language = Some ''en'', bd_totalCopies = 1, bd_location = None,
              bd_tags = [], bd_description = None, bd_coverImagePath = None\<rparr>"

definition state_members :: state where
  "state_members = \<lparr>books = [], members = [john, emily], transactions = [],
                     settings_of = seed_settings, seq_books = 0, seq_transactions = 0\<rparr>"

definition emily_loan :: transaction_row where
  "emily_loan =
     \<lparr>tid = 1, book_id = 1, member_id = 2, transaction_type = Lend,
      transaction_date = 1710723600, due_date = 19814, return_date = None,
      fine_amount = 0, fine_paid = False, t_notes = None,
      book_title = ''The Great Gatsby'', member_name = ''Emily Johnson'',
      row_member_type = ''faculty''\<rparr>"


definition with_gracePeriods :: "(string \<Rightarrow> int option) \<Rightarrow> settings \<Rightarrow> settings" where
  \<comment> \<open>the settings with the grace period of every fine rule replaced\<close>
  "with_gracePeriods g st =
     st\<lparr>fineRules :=
          map_option (map (\<lambda>(memberType, r). (memberType, r\<lparr>gracePeriod := g memberType\<rparr>)))
            (fineRules st)\<rparr>"



section \<open>What the store accepts\<close>

subsection \<open>Auxiliary facts\<close>

lemma check_row_store_error: "check_row cs assigned r = Some e \<Longrightarrow> store_error e"
  by (induction cs assigned r rule: check_row.induct)
     (auto split: if_splits verdict.splits)

lemma first_error_Some:
  "first_error chk xs = Some e \<Longrightarrow> \<exists>x \<in> set xs. chk x = Some e"
  by (induction xs) (auto split: option.splits)

lemma first_error_None: "first_error chk xs = None \<Longrightarrow> x \<in> set xs \<Longrightarrow> chk x = None"
  by (induction xs) (auto split: option.splits)

lemma idx_transactions_overdue_None:
  "(first_error idx_transactions_overdue ts = None) = (\<forall>t \<in> set ts. return_date t \<noteq> None)"
  by (induction ts) (auto simp: idx_transactions_overdue_def)

lemma idx_transactions_overdue_Some:
  "first_error idx_transactions_overdue ts = Some e \<Longrightarrow> e = NonDeterministic ''date'' ''an index''"
  by (induction ts) (auto simp: idx_transactions_overdue_def split: if_splits)




lemma find_Some_mem: "find P xs = Some x \<Longrightarrow> x \<in> set xs \<and> P x"
  by (induction xs) (auto split: if_splits)

lemma join_row_Some:
  "join_row s t = Some tr \<Longrightarrow>
     \<exists>b m. find (\<lambda>b. bid b = book_id t) (books s) = Some b
          \<and> find (\<lambda>m. mid m = member_id t) (members s) = Some m
          \<and> tr = transaction.extend t (transaction_row.fields (title b) (name m) (member_type m))"
  by (auto simp: join_row_def split: option.splits)

lemma return_date_join_row: "join_row s t = Some tr \<Longrightarrow> return_date tr = return_date t"
  by (auto dest!: join_row_Some simp: transaction.extend_def)

text \<open>The texts of the two refusals, as SQLite words them.\<close>

lemma refusal_messages:
  "message (NonDeterministic ''strftime'' ''a CHECK constraint'')
     = ''non-deterministic use of strftime() in a CHECK constraint''"
  "message (NonDeterministic ''date'' ''an index'') = ''non-deterministic use of date() in an index''"
  "message (CheckFailed ''chk_publication_year'') = ''CHECK constraint failed: chk_publication_year''"
  by simp_all

subsection \<open>Books\<close>

text \<open>
  Whatever the row, the constraints of an INSERT into \<open>books\<close>, and those of the UPDATE of
  \<open>updateBook\<close>, do not all hold: both statements evaluate \<open>chk_publication_year\<close>, which
  is violated or refused.
\<close>

lemma insert_book_refused: "check_row book_checks None b \<noteq> None"
  by (auto simp: book_checks_def split: option.splits)

lemma updateBook_row_refused: "check_row book_checks (Some updateBook_columns) b \<noteq> None"
  by (auto simp: book_checks_def updateBook_columns_def split: option.splits)

lemma createBook_refused: "\<exists>e. store_error e \<and> createBook bd c s = (Inl e, s)"
proof -
  obtain e where e: "check_row book_checks None (new_book bd c s) = Some e"
    using insert_book_refused [of "new_book bd c s"] by auto
  then have "createBook bd c s = (Inl e, s)" by (simp add: createBook_def Let_def)
  then show ?thesis using check_row_store_error [OF e] by blast
qed

lemma updateBook_cases:
  "(filter (\<lambda>b. bid b = i) (books s) = [] \<and> updateBook i bd c s = (Inl BookNotFound, s))
   \<or> (filter (\<lambda>b. bid b = i) (books s) \<noteq> []
       \<and> (\<exists>e. store_error e \<and> updateBook i bd c s = (Inl e, s)))"
proof (cases "filter (\<lambda>b. bid b = i) (books s)")
  case Nil
  then show ?thesis by (simp add: updateBook_def update_books_def)
next
  case (Cons b bs)
  obtain e where e: "check_row book_checks (Some updateBook_columns) (updateBook_set bd b) = Some e"
    using updateBook_row_refused [of "updateBook_set bd b"] by auto
  then have "updateBook i bd c s = (Inl e, s)"
    by (simp add: updateBook_def update_books_def Cons)
  then show ?thesis using check_row_store_error [OF e] Cons by auto
qed

lemma updateBook_unchanged: "snd (updateBook i bd c s) = s"
  using updateBook_cases [of i s bd c] by auto

subsection \<open>Transactions\<close>

text \<open>
  The row that \<open>createTransaction\<close> asks for has no return date. If its due date is not
  after the day of the call, \<open>chk_due_date_after_lend\<close> is violated; otherwise the row
  reaches the partial index, which refuses it. No trigger runs.
\<close>

lemma createTransaction_refused:
  "createTransaction td c s
     = (Inl (if date_ge_timestamp (td_dueDate td) (CURRENT_TIMESTAMP c)
             then NonDeterministic ''date'' ''an index''
             else CheckFailed ''chk_due_date_after_lend''), s)"
  by (simp add: createTransaction_def Let_def new_transaction_def transaction_checks_def
        idx_transactions_overdue_def)


lemma returnBook_open:
  assumes "t \<in> set (transactions s)" "tid t = i" "return_date t = None"
  shows "\<exists>e. store_error e \<and> returnBook i fine c s = (Inl e, s)"
proof -
  let ?olds = "filter (\<lambda>t. tid t = i) (transactions s)"
  let ?news = "map (returnBook_set c fine) ?olds"
  have t: "t \<in> set (?news @ ?olds)" using assms by simp
  show ?thesis
  proof (cases "first_error (check_row transaction_checks (Some returnBook_columns)) ?news")
    case (Some e)
    then obtain x where "check_row transaction_checks (Some returnBook_columns) x = Some e"
      using first_error_Some by blast
    then have "store_error e" by (rule check_row_store_error)
    moreover have "returnBook i fine c s = (Inl e, s)"
      using Some by (simp add: returnBook_def Let_def)
    ultimately show ?thesis by blast
  next
    case None
    have "first_error idx_transactions_overdue (?news @ ?olds) \<noteq> None"
    proof
      assume "first_error idx_transactions_overdue (?news @ ?olds) = None"
      from first_error_None [OF this t] show False
        using assms(3) by (simp add: idx_transactions_overdue_def)
    qed
    then obtain e where e: "first_error idx_transactions_overdue (?news @ ?olds) = Some e"
      by auto
    then obtain x where "idx_transactions_overdue x = Some e"
      using first_error_Some by blast
    then have "store_error e"
      by (auto simp: idx_transactions_overdue_def split: if_splits)
    moreover have "returnBook i fine c s = (Inl e, s)"
      using None e by (simp add: returnBook_def Let_def)
    ultimately show ?thesis by blast
  qed
qed


subsection \<open>The two handlers\<close>

lemma availableCopies_undefined: "book_row_number r ''availableCopies'' = None"
  by (simp add: book_row_number_def)

lemma transactions_lend_cases:
  "transactions_lend bookId memberId dueDate c s =
     (if bookId = 0 \<or> memberId = 0 then (Inl IdsRequired, s)
      else case getBookById s bookId of
        None \<Rightarrow> (Inl BookNotFound, s)
      | Some book \<Rightarrow>
          (case getMemberById s memberId of
             None \<Rightarrow> (Inl MemberNotFound, s)
           | Some member \<Rightarrow>
               (Inl (if date_ge_timestamp
                          (calculatedDueDate dueDate c (getAllSettings s) member)
                          (CURRENT_TIMESTAMP c)
                     then NonDeterministic ''date'' ''an index''
                     else CheckFailed ''chk_due_date_after_lend''), s)))"
  by (simp add: transactions_lend_def availableCopies_undefined js_le_def
        createTransaction_refused split: option.splits)

lemma transactions_lend_unchanged: "snd (transactions_lend bookId memberId dueDate c s) = s"
  by (simp add: transactions_lend_cases split: option.splits)

lemma transactions_return_open:
  assumes "getTransactionById s i = Some tr" "return_date tr = None"
  shows "\<exists>e. store_error e \<and> returnBook i fine c s = (Inl e, s)"
proof -
  from assms(1) obtain t where f: "find (\<lambda>t. tid t = i) (transactions s) = Some t"
    and j: "join_row s t = Some tr"
    by (auto simp: getTransactionById_def split: option.splits)
  have "t \<in> set (transactions s)" "tid t = i" using find_Some_mem [OF f] by auto
  moreover have "return_date t = None" using return_date_join_row [OF j] assms(2) by simp
  ultimately show ?thesis by (rule returnBook_open)
qed

lemma transactions_return_cases:
  "(i = 0 \<and> transactions_return i c s = (Inl TransactionIdRequired, s))
   \<or> (i \<noteq> 0 \<and> getTransactionById s i = None
        \<and> transactions_return i c s = (Inl TransactionNotFound, s))
   \<or> (i \<noteq> 0 \<and> (\<exists>tr. getTransactionById s i = Some tr \<and> return_date tr \<noteq> None)
        \<and> transactions_return i c s = (Inl AlreadyReturned, s))
   \<or> (i \<noteq> 0 \<and> (\<exists>tr. getTransactionById s i = Some tr \<and> return_date tr = None)
        \<and> (\<exists>e. store_error e \<and> transactions_return i c s = (Inl e, s)))"
proof (cases "i = 0")
  case True
  then show ?thesis by (simp add: transactions_return_def)
next
  case nz: False
  show ?thesis
  proof (cases "getTransactionById s i")
    case None
    then show ?thesis using nz by (simp add: transactions_return_def)
  next
    case (Some tr)
    show ?thesis
    proof (cases "return_date tr")
      case None
      from transactions_return_open [OF Some None]
      obtain e where "store_error e"
        "returnBook i (fineAmount_of (getAllSettings s) c tr) c s = (Inl e, s)"
        by blast
      then show ?thesis using nz Some None by (auto simp: transactions_return_def)
    next
      case (Some r)
      then show ?thesis using nz \<open>getTransactionById s i = Some tr\<close>
        by (simp add: transactions_return_def)
    qed
  qed
qed

lemma transactions_return_unchanged: "snd (transactions_return i c s) = s"
  using transactions_return_cases [of i c s] by auto

section \<open>The claims\<close>

subsection \<open>C1: the availability equation\<close>






lemma createBook_unchanged: "snd (createBook bd c s) = s"
  using createBook_refused [of bd c s] by auto


lemma rows_apply_operation:
  "set (books (apply_operation c operation s)) \<subseteq> set (books s)
   \<and> set (transactions (apply_operation c operation s)) \<subseteq> set (transactions s)"
  by (cases operation)
     (auto simp: createBook_unchanged updateBook_unchanged transactions_lend_unchanged
        transactions_return_unchanged deleteBook_def deleteMember_def split: option.splits)


lemma rows_run:
  "set (books (run ops s)) \<subseteq> set (books s)
   \<and> set (transactions (run ops s)) \<subseteq> set (transactions s)"
proof (induction ops arbitrary: s)
  case Nil
  then show ?case by simp
next
  case (Cons a ops)
  obtain c operation where a: "a = (c, operation)" by (cases a)
  from Cons.IH [of "apply_operation c operation s"] rows_apply_operation [of c operation s]
  show ?case by (auto simp: a)
qed

text \<open>
  A database that has no book and no transaction never gets one, whatever is called.
\<close>

lemma no_book_no_transaction:
  "books s = [] \<Longrightarrow> transactions s = []
     \<Longrightarrow> books (run ops s) = [] \<and> transactions (run ops s) = []"
  using rows_run [of ops s] by simp




subsection \<open>C2: lending a book with no available copy\<close>

text \<open>
  C2. The handler compares \<open>book.availableCopies\<close> with zero, but the row that
  \<open>getBookById\<close> returns names the column \<open>available_copies\<close>. The property read is
  \<open>undefined\<close>, the comparison is false for every book, and the reply \<open>Book is not
  available for lending\<close> is never given, whatever the database and the arguments. A
  call that finds the book and the member goes on to \<open>createTransaction\<close>, and its reply
  is that of the store: the INSERT is refused by the partial index, or by
  \<open>chk_due_date_after_lend\<close> when the due date is not after the day of the call. No
  row is written.
\<close>

theorem transactions_lend_never_NotAvailable:
  "fst (transactions_lend bookId memberId dueDate c s) \<noteq> Inl NotAvailable
   \<and> snd (transactions_lend bookId memberId dueDate c s) = s
   \<and> fst (transactions_lend bookId memberId dueDate c s) =
       (if bookId = 0 \<or> memberId = 0 then Inl IdsRequired
        else case getBookById s bookId of
          None \<Rightarrow> Inl BookNotFound
        | Some book \<Rightarrow>
            (case getMemberById s memberId of
               None \<Rightarrow> Inl MemberNotFound
             | Some member \<Rightarrow>
                 Inl (if date_ge_timestamp
                           (calculatedDueDate dueDate c (getAllSettings s) member)
                           (CURRENT_TIMESTAMP c)
                      then NonDeterministic ''date'' ''an index''
                      else CheckFailed ''chk_due_date_after_lend'')))"
  by (simp add: transactions_lend_cases split: option.splits)

subsection \<open>C3: the grace period\<close>

lemma map_of_with_gracePeriods:
  "map_of (map (\<lambda>(memberType, r). (memberType, r\<lparr>gracePeriod := g memberType\<rparr>)) rules) k
     = map_option (\<lambda>r. r\<lparr>gracePeriod := g k\<rparr>) (map_of rules k)"
  by (induction rules) auto

lemma rates_with_gracePeriods:
  "dailyRate_of (with_gracePeriods g st) memberType = dailyRate_of st memberType"
  "maxFine_of (with_gracePeriods g st) memberType = maxFine_of st memberType"
  by (auto simp: dailyRate_of_def maxFine_of_def with_gracePeriods_def map_of_with_gracePeriods
        split: option.splits)

text \<open>
  C3. The fine that the return handler computes does not depend on the grace periods of
  the settings: the handler never reads \<open>gracePeriod\<close>. At the failing input the settings
  (those of the seed file) give faculty members a grace period of 3 days; for the
  faculty member's loan, due on day 19814, the handler computes on day 19816, two whole
  days late and within the grace period, the fine \<open>2 * 3 = 6\<close>.
\<close>

theorem fine_ignores_grace_period:
  "fineAmount_of (with_gracePeriods g st) c tr = fineAmount_of st c tr
   \<and> (case fineRules seed_settings of
        None \<Rightarrow> None
      | Some rules \<Rightarrow> map_option gracePeriod (map_of rules (row_member_type emily_loan)))
       = Some (Some 3)
   \<and> differenceInDays (now_ms (clock_at 19816 3600000)) (Date_of_date (due_date emily_loan)) = 2
   \<and> fineAmount_of seed_settings (clock_at 19816 3600000) emily_loan = 6"
proof -
  have "fineAmount_of (with_gracePeriods g st) c tr = fineAmount_of st c tr"
    by (simp add: fineAmount_of_def rates_with_gracePeriods Let_def)
  moreover have "(case fineRules seed_settings of
        None \<Rightarrow> None
      | Some rules \<Rightarrow> map_option gracePeriod (map_of rules (row_member_type emily_loan)))
       = Some (Some 3)"
    by code_simp
  moreover have
    "differenceInDays (now_ms (clock_at 19816 3600000)) (Date_of_date (due_date emily_loan)) = 2"
    by code_simp
  moreover have "fineAmount_of seed_settings (clock_at 19816 3600000) emily_loan = 6"
    by code_simp
  ultimately show ?thesis by blast
qed

subsection \<open>C4: the fine\<close>



lemma transactions_return_passes_fine:
  "transactionId \<noteq> 0 \<Longrightarrow> getTransactionById s transactionId = Some tr
     \<Longrightarrow> return_date tr = None
     \<Longrightarrow> transactions_return transactionId c s
           = returnBook transactionId (fineAmount_of (getAllSettings s) c tr) c s"
  by (simp add: transactions_return_def)




subsection \<open>C5: returning twice, returning what does not exist\<close>




subsection \<open>C6: the default due date\<close>

lemma memberType_undefined: "member_row_text r ''memberType'' = None"
  by (simp add: member_row_text_def)

text \<open>
  C6. The handler indexes the lending periods by \<open>member.memberType\<close>, but the row that
  \<open>getMemberById\<close> returns names the column \<open>member_type\<close>. The key is \<open>undefined\<close> for every
  member, so the period does not depend on the member: unless the settings have a
  period under the key \<open>undefined\<close>, it is the final fallback of 14 days. At the failing
  input the member is the faculty member of the example; the settings of the seed file,
  and the handler's defaults as well, give faculty 30 days, and the period computed is
  14 days with either, the due date of a call on day 19800 being day 19814.
\<close>

theorem lending_period_ignores_member:
  "lending_period st member
     = number_or (map_of (case lendingPeriods st of None \<Rightarrow> default_lendingPeriods | Some l \<Rightarrow> l)
                    ''undefined'') 14
   \<and> map_option member_type (getMemberById state_members 2) = Some ''faculty''
   \<and> map_of default_lendingPeriods ''faculty'' = Some 30
   \<and> (case lendingPeriods seed_settings of None \<Rightarrow> None | Some l \<Rightarrow> map_of l ''faculty'')
       = Some 30
   \<and> map_option (lending_period seed_settings) (getMemberById state_members 2) = Some 14
   \<and> map_option (lending_period \<lparr>fineRules = None, lendingPeriods = None\<rparr>)
        (getMemberById state_members 2) = Some 14
   \<and> map_option (calculatedDueDate None (clock_at 19800 3600000) seed_settings)
        (getMemberById state_members 2) = Some 19814"
proof -
  have "lending_period st member
     = number_or (map_of (case lendingPeriods st of None \<Rightarrow> default_lendingPeriods | Some l \<Rightarrow> l)
                    ''undefined'') 14"
    by (simp add: lending_period_def memberType_undefined js_String_def)
  moreover have "map_option member_type (getMemberById state_members 2) = Some ''faculty''"
    by code_simp
  moreover have "map_of default_lendingPeriods ''faculty'' = Some 30"
    by code_simp
  moreover have
    "(case lendingPeriods seed_settings of None \<Rightarrow> None | Some l \<Rightarrow> map_of l ''faculty'')
       = Some 30"
    by code_simp
  moreover have
    "map_option (lending_period seed_settings) (getMemberById state_members 2) = Some 14"
    by code_simp
  moreover have "map_option (lending_period \<lparr>fineRules = None, lendingPeriods = None\<rparr>)
        (getMemberById state_members 2) = Some 14"
    by code_simp
  moreover have "map_option (calculatedDueDate None (clock_at 19800 3600000) seed_settings)
        (getMemberById state_members 2) = Some 19814"
    by code_simp
  ultimately show ?thesis by blast
qed

subsection \<open>C7: the book after a return\<close>


subsection \<open>C8: the projections of active and overdue loans\<close>

text \<open>
  The two projections leave the database alone, and they select the open loans that have
  a book and a member; the overdue loans are those among them whose due date is before
  the date of the store, which is the date in UTC. The rows come ordered by due date.
\<close>

lemma projections_read_only:
  "snd (getActiveTransactions c s) = s \<and> snd (getOverdueTransactions c s) = s"
  by (simp add: getActiveTransactions_def getOverdueTransactions_def)

lemma set_map_filter_join:
  "set (List.map_filter (join_row s) ts) = {tr. \<exists>t \<in> set ts. join_row s t = Some tr}"
  by (force simp: List.map_filter_def image_iff)

lemma active_loans_selected:
  "set (fst (getActiveTransactions c s))
     = {with_status c s tr | t tr.
          t \<in> set (transactions s) \<and> is_open t \<and> join_row s t = Some tr}"
  by (auto simp: getActiveTransactions_def set_map_filter_join is_open_def)

lemma overdue_loans_selected:
  "set (fst (getOverdueTransactions c s))
     = {with_authors s tr | t tr.
          t \<in> set (transactions s) \<and> is_open t \<and> due_date t < date_now c
          \<and> join_row s t = Some tr}"
  by (auto simp: getOverdueTransactions_def set_map_filter_join is_open_def)

lemma projections_sorted:
  "sorted (map due_date (fst (getActiveTransactions c s)))
   \<and> sorted (map due_date (fst (getOverdueTransactions c s)))"
  by (simp add: getActiveTransactions_def getOverdueTransactions_def)

subsection \<open>C9: deleting a book or a member\<close>

lemma undated_transaction:
  "(first_error idx_transactions_overdue (filter P ts) = None)
     = (\<not> list_ex (\<lambda>t. P t \<and> return_date t = None) ts)"
  by (auto simp: idx_transactions_overdue_None list_ex_iff)

lemma deleteBook_cases:
  "deleteBook i s =
     (if 0 < book_active_loans s i then (Inl ActiveLoansBook, s)
      else if i \<notin> set (map bid (books s)) then (Inl BookNotFound, s)
      else if list_ex (\<lambda>t. book_id t = i \<and> return_date t = None) (transactions s)
        then (Inl (NonDeterministic ''date'' ''an index''), s)
      else (Inr True,
            s\<lparr>books := filter (\<lambda>b. bid b \<noteq> i) (books s),
              transactions := filter (\<lambda>t. book_id t \<noteq> i) (transactions s)\<rparr>))"
proof (cases "first_error idx_transactions_overdue (filter (\<lambda>t. book_id t = i) (transactions s))")
  case None
  then show ?thesis
    using undated_transaction [of "\<lambda>t. book_id t = i" "transactions s"]
    by (auto simp: deleteBook_def filter_empty_conv)
next
  case (Some e)
  then show ?thesis
    using undated_transaction [of "\<lambda>t. book_id t = i" "transactions s"]
      idx_transactions_overdue_Some [OF Some]
    by (auto simp: deleteBook_def filter_empty_conv)
qed

lemma deleteMember_cases:
  "deleteMember i s =
     (if 0 < member_active_loans s i then (Inl ActiveLoansMember, s)
      else if i \<notin> set (map mid (members s)) then (Inl MemberNotFound, s)
      else if list_ex (\<lambda>t. member_id t = i \<and> return_date t = None) (transactions s)
        then (Inl (NonDeterministic ''date'' ''an index''), s)
      else (Inr True,
            s\<lparr>members := filter (\<lambda>m. mid m \<noteq> i) (members s),
              transactions := filter (\<lambda>t. member_id t \<noteq> i) (transactions s)\<rparr>))"
proof (cases "first_error idx_transactions_overdue (filter (\<lambda>t. member_id t = i) (transactions s))")
  case None
  then show ?thesis
    using undated_transaction [of "\<lambda>t. member_id t = i" "transactions s"]
    by (auto simp: deleteMember_def filter_empty_conv)
next
  case (Some e)
  then show ?thesis
    using undated_transaction [of "\<lambda>t. member_id t = i" "transactions s"]
      idx_transactions_overdue_Some [OF Some]
    by (auto simp: deleteMember_def filter_empty_conv)
qed

text \<open>
  C9. Deleting a book that has an open loan fails with \<open>Cannot delete book with active
  loans\<close> and leaves the database as it was. Deleting a book that has none, when every
  transaction of the book has its return date, succeeds if the book exists, and the book
  is gone. (A transaction of type \<open>'return'\<close> without a return date is not an open loan,
  but it cannot leave the partial index: the store refuses the deletion.) A deletion
  that fails changes nothing. The same holds for a member, with \<open>Cannot delete member
  with active loans\<close>.
\<close>

theorem delete_guarded_by_open_loans:
  "fst (deleteBook i s)
     = (if 0 < book_active_loans s i then Inl ActiveLoansBook
        else if i \<notin> set (map bid (books s)) then Inl BookNotFound
        else if list_ex (\<lambda>t. book_id t = i \<and> return_date t = None) (transactions s)
          then Inl (NonDeterministic ''date'' ''an index'')
        else Inr True)
   \<and> (if fst (deleteBook i s) = Inr True
      then i \<notin> set (map bid (books (snd (deleteBook i s))))
      else snd (deleteBook i s) = s)
   \<and> fst (deleteMember j s)
     = (if 0 < member_active_loans s j then Inl ActiveLoansMember
        else if j \<notin> set (map mid (members s)) then Inl MemberNotFound
        else if list_ex (\<lambda>t. member_id t = j \<and> return_date t = None) (transactions s)
          then Inl (NonDeterministic ''date'' ''an index'')
        else Inr True)
   \<and> (if fst (deleteMember j s) = Inr True
      then j \<notin> set (map mid (members (snd (deleteMember j s))))
      else snd (deleteMember j s) = s)
   \<and> message ActiveLoansBook = ''Cannot delete book with active loans''
   \<and> message ActiveLoansMember = ''Cannot delete member with active loans''"
proof -
  have b1: "fst (deleteBook i s)
     = (if 0 < book_active_loans s i then Inl ActiveLoansBook
        else if i \<notin> set (map bid (books s)) then Inl BookNotFound
        else if list_ex (\<lambda>t. book_id t = i \<and> return_date t = None) (transactions s)
          then Inl (NonDeterministic ''date'' ''an index'')
        else Inr True)"
    by (simp add: deleteBook_cases)
  have b2: "(if fst (deleteBook i s) = Inr True
      then i \<notin> set (map bid (books (snd (deleteBook i s))))
      else snd (deleteBook i s) = s)"
    by (auto simp: deleteBook_cases)
  have m1: "fst (deleteMember j s)
     = (if 0 < member_active_loans s j then Inl ActiveLoansMember
        else if j \<notin> set (map mid (members s)) then Inl MemberNotFound
        else if list_ex (\<lambda>t. member_id t = j \<and> return_date t = None) (transactions s)
          then Inl (NonDeterministic ''date'' ''an index'')
        else Inr True)"
    by (simp add: deleteMember_cases)
  have m2: "(if fst (deleteMember j s) = Inr True
      then j \<notin> set (map mid (members (snd (deleteMember j s))))
      else snd (deleteMember j s) = s)"
    by (auto simp: deleteMember_cases)
  show ?thesis by (intro conjI b1 b2 m1 m2) simp_all
qed

text \<open>
  The witness: in the database of the two members, the faculty member has no open loan
  and no transaction at all; deleting that member succeeds and leaves the student alone.
  There is no book 1 to delete.
\<close>

theorem delete_guarded_by_open_loans_witness:
  "member_active_loans state_members 2 = 0
   \<and> 2 \<in> set (map mid (members state_members))
   \<and> fst (deleteMember 2 state_members) = Inr True
   \<and> map mid (members (snd (deleteMember 2 state_members))) = [1]
   \<and> fst (deleteBook 1 state_members) = Inl BookNotFound"
proof -
  have h: "member_active_loans state_members 2 = 0"
    "2 \<in> set (map mid (members state_members))"
    "\<not> list_ex (\<lambda>t. member_id t = 2 \<and> return_date t = None) (transactions state_members)"
    "book_active_loans state_members 1 = 0"
    "1 \<notin> set (map bid (books state_members))"
    by code_simp+
  have m: "map mid (members (snd (deleteMember 2 state_members))) = [1]" by code_simp
  from delete_guarded_by_open_loans [of 1 state_members 2] h
  have "fst (deleteMember 2 state_members) = Inr True"
    and "fst (deleteBook 1 state_members) = Inl BookNotFound"
    by simp_all
  then show ?thesis using h m by simp
qed

subsection \<open>C10: what \<open>updateBook\<close> writes\<close>

text \<open>
  C10. After \<open>updateBook\<close>, successful or not, every book has its columns as before,
  except possibly the descriptive fields and \<open>total_copies\<close>; \<open>available_copies\<close> and
  \<open>status\<close> of every book are as before. The SET clause of \<open>updateBook\<close> assigns neither
  of the two (nor \<open>id\<close>, nor \<open>created_at\<close>). On this schema the descriptive fields and
  \<open>total_copies\<close> are unchanged as well: the UPDATE assigns \<open>publication_year\<close>, the store
  refuses it for every book that exists, and the database is as it was.
\<close>

theorem updateBook_frame:
  "list_all2
     (\<lambda>b b'. b' = b\<lparr>title := title b', authors := authors b', isbn := isbn b',
                    publisher := publisher b', publication_year := publication_year b',
                    genres := genres b', language := language b',
                    total_copies := total_copies b', location := location b',
                    tags := tags b', description := description b',
                    cover_image_path := cover_image_path b'\<rparr>)
     (books s) (books (snd (updateBook i bd c s)))
   \<and> map available_copies (books (snd (updateBook i bd c s))) = map available_copies (books s)
   \<and> map status (books (snd (updateBook i bd c s))) = map status (books s)
   \<and> snd (updateBook i bd c s) = s
   \<and> available_copies (updateBook_set bd b) = available_copies b
   \<and> status (updateBook_set bd b) = status b
   \<and> bid (updateBook_set bd b) = bid b
   \<and> created_at (updateBook_set bd b) = created_at b"
  by (simp add: updateBook_unchanged updateBook_set_def list_all2_same)

text \<open>
  An instance: in the database of the two members there is no book 1, and the call fails
  with \<open>Book not found\<close>.
\<close>

lemma updateBook_example:
  "updateBook 1 gatsby (clock_at 19800 0) state_members = (Inl BookNotFound, state_members)"
  by code_simp

end
